theory Spec2Isabelle
  imports Main "HOL-Library.Word"
begin

unbundle bit_operations_syntax

section \<open>The DispmanX scaling filter of \<^verbatim>\<open>modules/hw/mmal/scale.c\<close>\<close>

text \<open>
  The source file holds two functions: \<^verbatim>\<open>OpenFilter\<close>, which decides whether the filter
  takes a stream, and \<^verbatim>\<open>Filter\<close>, which scales one picture through the DispmanX
  compositor. Both work on a \<^verbatim>\<open>filter_t\<close> and on the accelerator; the model passes
  that state explicitly and records every accelerator call in a log.
\<close>

subsection \<open>Formats, pictures and the filter object\<close>

text \<open>
  \<^verbatim>\<open>i_chroma\<close> is a fourcc. The four codes the source compares against are
  constructors of their own; every other fourcc is \<open>VLC_CODEC_OTHER\<close> with its raw value
  (the numeric values of the four macros live in a header outside the source file and are
  never needed).
\<close>

datatype vlc_fourcc_t =
    VLC_CODEC_YUVP
  | VLC_CODEC_YUVA
  | VLC_CODEC_RGB32
  | VLC_CODEC_RGBA
  | VLC_CODEC_OTHER "32 word"

datatype video_orientation_t =
    ORIENT_TOP_LEFT
  | ORIENT_TOP_RIGHT
  | ORIENT_BOTTOM_LEFT
  | ORIENT_BOTTOM_RIGHT
  | ORIENT_LEFT_TOP
  | ORIENT_LEFT_BOTTOM
  | ORIENT_RIGHT_TOP
  | ORIENT_RIGHT_BOTTOM

text \<open>
  A palette entry is the four bytes \<^verbatim>\<open>yuv_pal[0..3]\<close>, written here as the tuple
  \<open>(yuv_pal[0], yuv_pal[1], yuv_pal[2], yuv_pal[3])\<close>. In C the palette array always has
  256 rows; \<open>i_entries\<close> is a signed int.
\<close>

type_synonym yuv_pal_t = "8 word \<times> 8 word \<times> 8 word \<times> 8 word"

record video_palette_t =
  i_entries :: int
  palette :: "yuv_pal_t list"

record video_format_t =
  i_chroma :: vlc_fourcc_t
  i_width :: "32 word"
  i_height :: "32 word"
  orientation :: video_orientation_t
  p_palette :: "video_palette_t option"

text \<open>
  A picture: pitch and pixel buffer of plane 0 (\<^verbatim>\<open>pic->p[0]\<close>), and the properties
  that \<^verbatim>\<open>picture_CopyProperties\<close> carries over.
\<close>

record picture_t =
  i_pitch :: "32 word"
  p_pixels :: "8 word list"
  date :: int
  pic_flags :: "32 word"

datatype video_filter_cb = Filter_cb

text \<open>\<open>fmt_in\<close> and \<open>fmt_out\<close> stand for \<^verbatim>\<open>filter->fmt_in.video\<close> and
  \<^verbatim>\<open>filter->fmt_out.video\<close>.\<close>

record filter_t =
  fmt_in :: video_format_t
  fmt_out :: video_format_t
  pf_video_filter :: "video_filter_cb option"

datatype vlc_status = VLC_SUCCESS | VLC_EGENERIC

subsection \<open>The accelerator interface\<close>

datatype VC_IMAGE_TYPE_T = VC_IMAGE_8BPP | VC_IMAGE_YUV420 | VC_IMAGE_RGBA32

datatype VC_RECT_T = VC_RECT "32 word" "32 word" "32 word" "32 word"

datatype DISPMANX_TRANSFORM_T = DISPMANX_NO_ROTATE

datatype VC_IMAGE_TRANSFORM_T = VC_IMAGE_ROT0

datatype DISPMANX_PROTECTION_T = DISPMANX_PROTECTION_NONE

datatype DISPMANX_FLAGS_ALPHA_T = DISPMANX_FLAGS_ALPHA_FROM_SOURCE | DISPMANX_FLAGS_ALPHA_MIX

datatype dispmanx_mask = DISPMANX_NO_HANDLE

text \<open>\<^verbatim>\<open>alpha.flags\<close> is the bitwise or of two flag macros: the list of the flags
  or-ed together; then \<^verbatim>\<open>opacity\<close> and \<^verbatim>\<open>mask\<close>.\<close>

datatype VC_DISPMANX_ALPHA_T =
  VC_DISPMANX_ALPHA "DISPMANX_FLAGS_ALPHA_T list" "32 word" dispmanx_mask

text \<open>
  One constructor per accelerator function the source calls, with the arguments in the
  source's order. Out-parameters (\<^verbatim>\<open>&dest_image_handle\<close>, the read-back buffer) and
  the \<^verbatim>\<open>NULL\<close> clamp are left out.
\<close>

datatype vc_request =
    Resource_create VC_IMAGE_TYPE_T "32 word" "32 word"
  | Display_open_offscreen "32 word" DISPMANX_TRANSFORM_T
  | Update_start "32 word"
  | Resource_write_data "32 word" VC_IMAGE_TYPE_T "32 word" "8 word list" VC_RECT_T
  | Resource_set_palette "32 word" "32 word list" "32 word" "32 word"
  | Element_add "32 word" "32 word" "32 word" VC_RECT_T "32 word" VC_RECT_T
      DISPMANX_PROTECTION_T VC_DISPMANX_ALPHA_T VC_IMAGE_TRANSFORM_T
  | Update_submit_sync "32 word"
  | Resource_read_data "32 word" VC_RECT_T "32 word"
  | Element_remove "32 word" "32 word"
  | Display_close "32 word"
  | Resource_delete "32 word"

text \<open>A logged call: the request and the value the accelerator returned for it.\<close>

type_synonym vc_event = "vc_request \<times> 32 word"

subsection \<open>What lies outside the source file\<close>

text \<open>
  Everything \<^verbatim>\<open>Filter\<close> calls but does not define is a field of the environment, so
  every theorem holds for any behaviour of these parts:
  \<^item> \<open>video_format_ScaleCropAr dst src\<close>: the adjusted output format (the C function
    writes it through its first argument);
  \<^item> \<open>filter_NewPicture\<close>: the host's picture allocator, \<open>None\<close> for \<^verbatim>\<open>NULL\<close>;
  \<^item> \<open>vc_ret\<close>: the value the accelerator returns for a request, given the log of all
    earlier calls (a handle for create, open, start and add);
  \<^item> \<open>vc_read\<close>: the bytes \<^verbatim>\<open>vc_dispmanx_resource_read_data\<close> stores in the
    destination buffer, given the log;
  \<^item> \<open>red_u8\<close>, \<open>green_u8\<close>, \<open>blue_u8\<close>: the three \<^verbatim>\<open>double\<close> expressions of
    the palette loop after the \<^verbatim>\<open>(uint8_t)\<close> cast of \<^verbatim>\<open>DPM_RGBA32\<close>, as functions of
    the palette bytes they read. IEEE arithmetic and the conversion of an out-of-range
    \<^verbatim>\<open>double\<close> to \<^verbatim>\<open>uint8_t\<close> (undefined in C) are not modelled.
\<close>

record env =
  video_format_ScaleCropAr :: "video_format_t \<Rightarrow> video_format_t \<Rightarrow> video_format_t"
  filter_NewPicture :: "filter_t \<Rightarrow> picture_t option"
  vc_ret :: "vc_event list \<Rightarrow> vc_request \<Rightarrow> 32 word"
  vc_read :: "vc_event list \<Rightarrow> 8 word list"
  red_u8 :: "8 word \<Rightarrow> 8 word \<Rightarrow> 8 word"
  green_u8 :: "8 word \<Rightarrow> 8 word \<Rightarrow> 8 word \<Rightarrow> 8 word"
  blue_u8 :: "8 word \<Rightarrow> 8 word \<Rightarrow> 8 word"

text \<open>
  The state the two functions read and write: the filter object, the function-static
  \<^verbatim>\<open>palette[256]\<close> of \<^verbatim>\<open>Filter\<close>, the log of accelerator calls, the pictures
  released so far and the number of \<^verbatim>\<open>bcm_host_init\<close> calls.
\<close>

record world =
  filter_obj :: filter_t
  Filter_palette :: "32 word list"
  vc_log :: "vc_event list"
  released :: "picture_t list"
  bcm_host_inits :: nat

subsection \<open>OpenFilter\<close>

text \<open>Lines 47 to 70. \<^verbatim>\<open>msg_Dbg\<close> only logs and is left out.\<close>

definition OpenFilter :: "world \<Rightarrow> vlc_status \<times> world" where
  "OpenFilter s =
     (let filter = filter_obj s in
      if (i_chroma (fmt_in filter) \<noteq> VLC_CODEC_YUVP \<and>
          i_chroma (fmt_in filter) \<noteq> VLC_CODEC_YUVA \<and>
          i_chroma (fmt_in filter) \<noteq> VLC_CODEC_RGB32 \<and>
          i_chroma (fmt_in filter) \<noteq> VLC_CODEC_RGBA) \<or>
         i_chroma (fmt_out filter) \<noteq> VLC_CODEC_RGBA
      then (VLC_EGENERIC, s)
      else if orientation (fmt_in filter) \<noteq> orientation (fmt_out filter)
      then (VLC_EGENERIC, s)
      else (VLC_SUCCESS,
            s\<lparr>bcm_host_inits := Suc (bcm_host_inits s),
              filter_obj := filter\<lparr>pf_video_filter := Some Filter_cb\<rparr>\<rparr>))"

subsection \<open>Helpers of Filter\<close>

text \<open>An accelerator call: the environment answers, the call and its answer are logged.\<close>

definition vc_call :: "env \<Rightarrow> vc_request \<Rightarrow> world \<Rightarrow> 32 word \<times> world" where
  "vc_call E req s =
     (let r = vc_ret E (vc_log s) req in (r, s\<lparr>vc_log := vc_log s @ [(req, r)]\<rparr>))"

text \<open>\<^verbatim>\<open>vc_dispmanx_rect_set\<close> fills a local rectangle; it does not reach the accelerator.\<close>

definition vc_dispmanx_rect_set :: "32 word \<Rightarrow> 32 word \<Rightarrow> 32 word \<Rightarrow> 32 word \<Rightarrow> VC_RECT_T" where
  "vc_dispmanx_rect_set x_offset y_offset w h = VC_RECT x_offset y_offset w h"

definition picture_Release :: "picture_t \<Rightarrow> world \<Rightarrow> world" where
  "picture_Release pic s = s\<lparr>released := released s @ [pic]\<rparr>"

text \<open>Modelled from the spec: \<^verbatim>\<open>picture_CopyProperties\<close> is declared in a header that
  is not part of the sources; the spec has it copy the frame metadata (timestamps, flags)
  from the input to the output picture.\<close>

definition picture_CopyProperties :: "picture_t \<Rightarrow> picture_t \<Rightarrow> picture_t" where
  "picture_CopyProperties p_dst p_src = p_dst\<lparr>date := date p_src, pic_flags := pic_flags p_src\<rparr>"

text \<open>Line 72: each argument is cast to \<^verbatim>\<open>uint8_t\<close> and shifted into place; the
  32 bits are the value stored in the \<^verbatim>\<open>unsigned int\<close> palette slot (the C
  expression is computed in \<^verbatim>\<open>int\<close>; the bit pattern is the same).\<close>

definition DPM_RGBA32 :: "8 word \<Rightarrow> 8 word \<Rightarrow> 8 word \<Rightarrow> 8 word \<Rightarrow> 32 word" where
  "DPM_RGBA32 a r g b =
     push_bit 24 (ucast a) OR push_bit 16 (ucast r) OR push_bit 8 (ucast g) OR push_bit 0 (ucast b)"

text \<open>Lines 159 to 162, for one entry \<open>(yuv_pal[0], yuv_pal[1], yuv_pal[2], yuv_pal[3])\<close>.\<close>

definition palette_entry :: "env \<Rightarrow> yuv_pal_t \<Rightarrow> 32 word" where
  "palette_entry E yuv_pal =
     (case yuv_pal of (p0, p1, p2, p3) \<Rightarrow>
        DPM_RGBA32 p3 (red_u8 E p0 p1) (green_u8 E p0 p2 p1) (blue_u8 E p0 p2))"

datatype fault = Null_dereference | Out_of_bounds

text \<open>
  The loop of lines 157 to 163, from index \<open>i\<close> on: \<open>src\<close> is
  \<^verbatim>\<open>fmt_in->p_palette->palette\<close>, \<open>n\<close> is \<^verbatim>\<open>i_entries\<close>, \<open>pal\<close> the static buffer.
  C does not check the index; an index outside either array is the fault
  \<open>Out_of_bounds\<close> here.
\<close>

function palette_loop ::
  "env \<Rightarrow> yuv_pal_t list \<Rightarrow> int \<Rightarrow> int \<Rightarrow> 32 word list \<Rightarrow> fault + 32 word list" where
  "palette_loop E src i n pal =
     (if i < n then
        (if 0 \<le> i \<and> nat i < length src \<and> nat i < length pal
         then palette_loop E src (i + 1) n (pal[nat i := palette_entry E (src ! nat i)])
         else Inl Out_of_bounds)
      else Inr pal)"
  by pat_completeness auto
termination
  by (relation "measure (\<lambda>(E, src, i, n, pal). nat (n - i))") auto

text \<open>\<^verbatim>\<open>sizeof(palette)\<close> for \<^verbatim>\<open>unsigned int palette[256]\<close> with 4-byte ints.\<close>

definition sizeof_palette :: "32 word" where
  "sizeof_palette = 1024"

text \<open>
  Lines 155 to 165: nothing happens unless the input chroma is YUVP; then the loop
  fills the static buffer and the whole buffer is handed to
  \<^verbatim>\<open>vc_dispmanx_resource_set_palette\<close>. A \<^verbatim>\<open>NULL\<close> \<^verbatim>\<open>p_palette\<close> is dereferenced by
  the C code: the fault \<open>Null_dereference\<close>.
\<close>

definition push_palette :: "env \<Rightarrow> video_format_t \<Rightarrow> 32 word \<Rightarrow> world \<Rightarrow> fault + world" where
  "push_palette E fmt src_res s =
     (if i_chroma fmt = VLC_CODEC_YUVP then
        (case p_palette fmt of
           None \<Rightarrow> Inl Null_dereference
         | Some pl \<Rightarrow>
             (case palette_loop E (palette pl) 0 (i_entries pl) (Filter_palette s) of
                Inl f \<Rightarrow> Inl f
              | Inr pal \<Rightarrow>
                  Inr (snd (vc_call E (Resource_set_palette src_res pal 0 sizeof_palette)
                              (s\<lparr>Filter_palette := pal\<rparr>)))))
      else Inr s)"

subsection \<open>Filter\<close>

text \<open>
  Lines 120 to 190, entered with the input picture \<open>pic\<close> and the fresh output picture
  \<open>pic_dst\<close>. The C ints \<^verbatim>\<open>src_width\<close> ... \<^verbatim>\<open>dst_pitch\<close> are 32-bit words, \<open>OR\<close> and
  \<open>push_bit 16\<close> are \<^verbatim>\<open>|\<close> and \<^verbatim>\<open><< 16\<close> on them. No return value of the
  accelerator is checked, as in the source; the values of the calls that return a status
  are bound and dropped. \<^verbatim>\<open>msg_Dbg\<close> only logs and is left out. The bytes read back
  become the pixels of the output picture.
\<close>

definition Filter_scale :: "env \<Rightarrow> picture_t \<Rightarrow> picture_t \<Rightarrow> world \<Rightarrow> fault + (picture_t option \<times> world)" where
  "Filter_scale E pic pic_dst s0 =
     (let f_out = fmt_out (filter_obj s0);
          f_in = fmt_in (filter_obj s0);
          (dest_res, s1) = vc_call E (Resource_create VC_IMAGE_RGBA32 (i_width f_out) (i_height f_out)) s0;
          (display, s2) = vc_call E (Display_open_offscreen dest_res DISPMANX_NO_ROTATE) s1;
          img_type = (if i_chroma f_in = VLC_CODEC_YUVP then VC_IMAGE_8BPP
                      else if i_chroma f_in = VLC_CODEC_YUVA then VC_IMAGE_YUV420
                      else VC_IMAGE_RGBA32);
          src_pitch = i_pitch pic;
          dst_pitch = i_pitch pic_dst;
          src_height = i_height (fmt_in (filter_obj s2));
          src_width = i_width (fmt_in (filter_obj s2));
          dst_height = i_height (fmt_out (filter_obj s2));
          dst_width = i_width (fmt_out (filter_obj s2));
          bmp_rect = vc_dispmanx_rect_set 0 0 src_width src_height;
          src_rect = vc_dispmanx_rect_set 0 0 (push_bit 16 src_width) (push_bit 16 src_height);
          dst_rect = vc_dispmanx_rect_set 0 0 dst_width dst_height;
          (update, s3) = vc_call E (Update_start 0) s2;
          (src_res, s4) = vc_call E (Resource_create img_type
                              (src_width OR push_bit 16 src_pitch)
                              (src_height OR push_bit 16 src_height)) s3;
          (w_ret, s5) = vc_call E (Resource_write_data src_res img_type src_pitch (p_pixels pic) bmp_rect) s4
      in case push_palette E f_in src_res s5 of
           Inl f \<Rightarrow> Inl f
         | Inr s6 \<Rightarrow>
            (let alpha = VC_DISPMANX_ALPHA
                           [DISPMANX_FLAGS_ALPHA_FROM_SOURCE, DISPMANX_FLAGS_ALPHA_MIX] 255
                           DISPMANX_NO_HANDLE;
                 (src_el, s7) = vc_call E (Element_add update display 0 dst_rect src_res src_rect
                                   DISPMANX_PROTECTION_NONE alpha VC_IMAGE_ROT0) s6;
                 (u_ret, s8) = vc_call E (Update_submit_sync update) s7;
                 scaled = vc_read E (vc_log s8);
                 (r_ret, s9) = vc_call E (Resource_read_data dest_res dst_rect dst_pitch) s8;
                 pic_dst1 = pic_dst\<lparr>p_pixels := scaled\<rparr>;
                 (e_ret, s10) = vc_call E (Element_remove update src_el) s9;
                 (c_ret, s11) = vc_call E (Display_close display) s10;
                 (d_ret, s12) = vc_call E (Resource_delete src_res) s11;
                 (d_ret', s13) = vc_call E (Resource_delete dest_res) s12;
                 pic_dst2 = picture_CopyProperties pic_dst1 pic;
                 s14 = picture_Release pic s13
             in Inr (Some pic_dst2, s14)))"

text \<open>
  Lines 73 to 118, then \<open>Filter_scale\<close>. \<open>None\<close> is a \<^verbatim>\<open>NULL\<close> picture.
  \<^verbatim>\<open>video_format_ScaleCropAr(fmt_out, fmt_in)\<close> writes through the pointer
  \<^verbatim>\<open>&filter->fmt_out.video\<close>, that is, into the filter object.
\<close>

definition Filter :: "env \<Rightarrow> picture_t option \<Rightarrow> world \<Rightarrow> fault + (picture_t option \<times> world)" where
  "Filter E pic_opt s =
     (case pic_opt of
        None \<Rightarrow> Inr (None, s)
      | Some pic \<Rightarrow>
          if i_height (fmt_in (filter_obj s)) = 0 \<or> i_width (fmt_in (filter_obj s)) = 0
          then Inr (None, s)
          else if i_height (fmt_out (filter_obj s)) = 0 \<or> i_width (fmt_out (filter_obj s)) = 0
          then Inr (None, s)
          else
            (let s' = s\<lparr>filter_obj := (filter_obj s)\<lparr>fmt_out :=
                          video_format_ScaleCropAr E (fmt_out (filter_obj s)) (fmt_in (filter_obj s))\<rparr>\<rparr>
             in case filter_NewPicture E (filter_obj s') of
                  None \<Rightarrow> Inr (None, picture_Release pic s')
                | Some pic_dst \<Rightarrow> Filter_scale E pic pic_dst s'))"

subsection \<open>Reading the log of accelerator calls\<close>

text \<open>The calls one invocation added to the log.\<close>

definition calls_since :: "world \<Rightarrow> world \<Rightarrow> vc_event list" where
  "calls_since s s' = drop (length (vc_log s)) (vc_log s')"

datatype vc_function =
    vc_dispmanx_resource_create
  | vc_dispmanx_display_open_offscreen
  | vc_dispmanx_update_start
  | vc_dispmanx_resource_write_data
  | vc_dispmanx_resource_set_palette
  | vc_dispmanx_element_add
  | vc_dispmanx_update_submit_sync
  | vc_dispmanx_resource_read_data
  | vc_dispmanx_element_remove
  | vc_dispmanx_display_close
  | vc_dispmanx_resource_delete

fun vc_function_of :: "vc_request \<Rightarrow> vc_function" where
  "vc_function_of (Resource_create t w h) = vc_dispmanx_resource_create"
| "vc_function_of (Display_open_offscreen d t) = vc_dispmanx_display_open_offscreen"
| "vc_function_of (Update_start p) = vc_dispmanx_update_start"
| "vc_function_of (Resource_write_data h t p px r) = vc_dispmanx_resource_write_data"
| "vc_function_of (Resource_set_palette h pal off sz) = vc_dispmanx_resource_set_palette"
| "vc_function_of (Element_add u d l dr h sr pr al tr) = vc_dispmanx_element_add"
| "vc_function_of (Update_submit_sync u) = vc_dispmanx_update_submit_sync"
| "vc_function_of (Resource_read_data h r p) = vc_dispmanx_resource_read_data"
| "vc_function_of (Element_remove u e) = vc_dispmanx_element_remove"
| "vc_function_of (Display_close d) = vc_dispmanx_display_close"
| "vc_function_of (Resource_delete h) = vc_dispmanx_resource_delete"

definition called :: "vc_event list \<Rightarrow> vc_function list" where
  "called evs = map (\<lambda>e. vc_function_of (fst e)) evs"

definition count_calls :: "vc_function \<Rightarrow> vc_event list \<Rightarrow> nat" where
  "count_calls f evs = length (filter (\<lambda>g. g = f) (called evs))"

text \<open>What the accelerator hands out and takes back, by kind and handle.\<close>

datatype hw_object = Resource "32 word" | Display "32 word" | Update "32 word" | Element "32 word"

text \<open>The object a call acquires: the handle it returned.\<close>

fun acquired :: "vc_event \<Rightarrow> hw_object list" where
  "acquired (Resource_create t w h, r) = [Resource r]"
| "acquired (Display_open_offscreen d t, r) = [Display r]"
| "acquired (Update_start p, r) = [Update r]"
| "acquired (Element_add u d l dr h sr pr al tr, r) = [Element r]"
| "acquired (req, r) = []"

text \<open>The object a teardown call gives back: the handle it names.\<close>

fun torn_down :: "vc_event \<Rightarrow> hw_object list" where
  "torn_down (Element_remove u e, r) = [Element e]"
| "torn_down (Display_close d, r) = [Display d]"
| "torn_down (Resource_delete h, r) = [Resource h]"
| "torn_down (req, r) = []"

text \<open>Submitting an update ends it; every other object ends with its teardown call.\<close>

fun given_up :: "vc_event \<Rightarrow> hw_object list" where
  "given_up (Update_submit_sync u, r) = [Update u]"
| "given_up (req, r) = torn_down (req, r)"

definition acquisitions :: "vc_event list \<Rightarrow> hw_object list" where
  "acquisitions evs = concat (map acquired evs)"

definition teardown :: "vc_event list \<Rightarrow> hw_object list" where
  "teardown evs = concat (map torn_down evs)"

text \<open>The objects still held after the calls \<open>evs\<close>, starting from the objects \<open>held\<close>.\<close>

fun still_held :: "hw_object list \<Rightarrow> vc_event list \<Rightarrow> hw_object list" where
  "still_held held [] = held"
| "still_held held (e # evs) = still_held (fold remove1 (given_up e) (held @ acquired e)) evs"

text \<open>
  What a palette call uploads. \<^verbatim>\<open>vc_dispmanx_resource_set_palette(handle, src_address,
  offset, size)\<close> is handed the address of the static buffer, a byte offset and a byte
  count: it reads \<open>size\<close> bytes from the buffer, that is, the first \<open>size div 4\<close> of its
  4-byte entries, for the palette of the resource from byte \<open>offset\<close> on. The observation
  of one call is the pair of the offset and the entries within the byte count; entries
  of the buffer beyond the byte count are not uploaded.
\<close>

fun pushed_palette :: "vc_event \<Rightarrow> (32 word \<times> 32 word list) list" where
  "pushed_palette (Resource_set_palette h pal off sz, r) = [(off, take (unat sz div 4) pal)]"
| "pushed_palette (req, r) = []"

text \<open>The palette uploads of a run, in order.\<close>

definition pushed_palettes :: "vc_event list \<Rightarrow> (32 word \<times> 32 word list) list" where
  "pushed_palettes evs = concat (map pushed_palette evs)"

text \<open>The calls before the first call of \<open>f\<close>.\<close>

definition calls_before :: "vc_function \<Rightarrow> vc_event list \<Rightarrow> vc_function list" where
  "calls_before f evs = takeWhile (\<lambda>g. g \<noteq> f) (called evs)"

text \<open>The calls after the first \<open>f\<close> and before the next \<open>g\<close>.\<close>

definition calls_between :: "vc_function \<Rightarrow> vc_function \<Rightarrow> vc_event list \<Rightarrow> vc_function list" where
  "calls_between f g evs =
     takeWhile (\<lambda>h. h \<noteq> g) (drop 1 (dropWhile (\<lambda>h. h \<noteq> f) (called evs)))"

text \<open>The input picture is not \<^verbatim>\<open>NULL\<close> and no width or height is 0 (lines 100 to 109).\<close>

definition passes_guards :: "picture_t option \<Rightarrow> world \<Rightarrow> bool" where
  "passes_guards pic_opt s =
     (pic_opt \<noteq> None \<and>
      i_height (fmt_in (filter_obj s)) \<noteq> 0 \<and> i_width (fmt_in (filter_obj s)) \<noteq> 0 \<and>
      i_height (fmt_out (filter_obj s)) \<noteq> 0 \<and> i_width (fmt_out (filter_obj s)) \<noteq> 0)"

text \<open>The palette loop stays inside both arrays: always so for a chroma other than YUVP.\<close>

definition palette_ready :: "video_format_t \<Rightarrow> 32 word list \<Rightarrow> bool" where
  "palette_ready fmt buf =
     (if i_chroma fmt = VLC_CODEC_YUVP then
        (case p_palette fmt of
           None \<Rightarrow> False
         | Some pl \<Rightarrow> i_entries pl \<le> int (length (palette pl)) \<and> i_entries pl \<le> int (length buf))
      else True)"

subsection \<open>Sample inputs\<close>

text \<open>
  An environment for the examples: the crop keeps the output height and takes the width
  that gives the input's aspect ratio; the allocator always delivers; the accelerator
  numbers its answers 1, 2, 3, ...; the colour channels are stand-ins.
\<close>

definition env0 :: env where
  "env0 = \<lparr>video_format_ScaleCropAr =
              (\<lambda>dst src. dst\<lparr>i_width := (i_height dst * i_width src) div i_height src\<rparr>),
           filter_NewPicture =
              (\<lambda>f. Some \<lparr>i_pitch = 4 * i_width (fmt_out f), p_pixels = [], date = 0, pic_flags = 0\<rparr>),
           vc_ret = (\<lambda>log req. word_of_nat (length log) + 1),
           vc_read = (\<lambda>log. [9, 9, 9, 9]),
           red_u8 = (\<lambda>p0 p1. p0),
           green_u8 = (\<lambda>p0 p2 p1. p1),
           blue_u8 = (\<lambda>p0 p2. p2)\<rparr>"

text \<open>The same environment with an allocator that has no picture left.\<close>

definition env_no_picture :: env where
  "env_no_picture = env0\<lparr>filter_NewPicture := (\<lambda>f. None)\<rparr>"

definition pic0 :: picture_t where
  "pic0 = \<lparr>i_pitch = 8, p_pixels = [1, 2, 3, 4, 5, 6, 7, 8, 9, 10, 11, 12, 13, 14, 15, 16],
           date = 40, pic_flags = 1\<rparr>"

definition fmt_rgba :: "32 word \<Rightarrow> 32 word \<Rightarrow> video_format_t" where
  "fmt_rgba w h = \<lparr>i_chroma = VLC_CODEC_RGBA, i_width = w, i_height = h,
                   orientation = ORIENT_TOP_LEFT, p_palette = None\<rparr>"

definition fmt_yuvp :: "int \<Rightarrow> yuv_pal_t \<Rightarrow> video_format_t" where
  "fmt_yuvp n entry = \<lparr>i_chroma = VLC_CODEC_YUVP, i_width = 2, i_height = 2,
                       orientation = ORIENT_TOP_LEFT,
                       p_palette = Some \<lparr>i_entries = n, palette = replicate 256 entry\<rparr>\<rparr>"

definition world_of :: "video_format_t \<Rightarrow> video_format_t \<Rightarrow> world" where
  "world_of f_in f_out =
     \<lparr>filter_obj = \<lparr>fmt_in = f_in, fmt_out = f_out, pf_video_filter = Some Filter_cb\<rparr>,
      Filter_palette = replicate 256 0, vc_log = [], released = [], bcm_host_inits = 1\<rparr>"

text \<open>The same state before \<^verbatim>\<open>OpenFilter\<close> has run: no callback, host library not
  initialised.\<close>

definition world_unopened :: "video_format_t \<Rightarrow> video_format_t \<Rightarrow> world" where
  "world_unopened f_in f_out =
     \<lparr>filter_obj = \<lparr>fmt_in = f_in, fmt_out = f_out, pf_video_filter = None\<rparr>,
      Filter_palette = replicate 256 0, vc_log = [], released = [], bcm_host_inits = 0\<rparr>"

text \<open>A 2 by 2 RGBA stream scaled to an 8 by 4 box, after \<^verbatim>\<open>OpenFilter\<close>.\<close>

definition world0 :: world where
  "world0 = world_of (fmt_rgba 2 2) (fmt_rgba 8 4)"

text \<open>The state \<open>Filter\<close> leaves behind (the state itself after a fault).\<close>

definition world_after :: "env \<Rightarrow> picture_t option \<Rightarrow> world \<Rightarrow> world" where
  "world_after E pic_opt s = (case Filter E pic_opt s of Inr (out, s') \<Rightarrow> s' | Inl f \<Rightarrow> s)"

text \<open>A paletted stream whose palette has two entries, on a fresh state, and on the state
  an earlier picture with a four-entry palette left behind.\<close>

definition world_yuvp_fresh :: world where
  "world_yuvp_fresh = world_of (fmt_yuvp 2 (16, 128, 128, 0)) (fmt_rgba 4 4)"

definition world_yuvp_used :: world where
  "world_yuvp_used =
     (world_after env0 (Some pic0) (world_of (fmt_yuvp 4 (235, 128, 128, 255)) (fmt_rgba 4 4)))
       \<lparr>filter_obj := filter_obj world_yuvp_fresh\<rparr>"

text \<open>The picture the sample runs return: the allocator's picture with the bytes read
  back and the input's properties.\<close>

definition out0 :: picture_t where
  "out0 = \<lparr>i_pitch = 16, p_pixels = [9, 9, 9, 9], date = 40, pic_flags = 1\<rparr>"

text \<open>An environment whose crop halves the width each time it is applied, so that a
  repeated adjustment shows.\<close>

definition env_half :: env where
  "env_half = env0\<lparr>video_format_ScaleCropAr := (\<lambda>dst src. dst\<lparr>i_width := i_width dst div 2\<rparr>)\<rparr>"

section \<open>Properties\<close>

subsection \<open>The palette loop\<close>

text \<open>The loop's equation unfolds itself; it is used only where named.\<close>

declare palette_loop.simps [simp del]

text \<open>
  When the loop returns, the buffer keeps its length, the slots from \<open>i\<close> up to
  \<open>n\<close> hold the converted entries and every other slot holds what it held before.
\<close>

lemma palette_loop_nth:
  "palette_loop E src i n pal = Inr pal' \<Longrightarrow>
     length pal' = length pal \<and>
     (\<forall>k < length pal. pal' ! k =
        (if i \<le> int k \<and> int k < n then palette_entry E (src ! k) else pal ! k))"
proof (induction E src i n pal rule: palette_loop.induct)
  case (1 E src i n pal)
  show ?case
  proof (cases "i < n")
    case False
    with "1.prems" show ?thesis by (auto simp: palette_loop.simps [of E src i n pal])
  next
    case True
    with "1.prems" have ok: "0 \<le> i" "nat i < length src" "nat i < length pal"
      by (auto simp: palette_loop.simps [of E src i n pal] split: if_splits)
    with True "1.prems" have run:
      "palette_loop E src (i + 1) n (pal[nat i := palette_entry E (src ! nat i)]) = Inr pal'"
      by (simp add: palette_loop.simps [of E src i n pal])
    from "1.IH" [OF True _ run] ok
    have ih: "length pal' = length pal"
      "\<And>k. k < length pal \<Longrightarrow> pal' ! k =
         (if i + 1 \<le> int k \<and> int k < n then palette_entry E (src ! k)
          else pal[nat i := palette_entry E (src ! nat i)] ! k)"
      by auto
    show ?thesis
    proof (intro conjI allI impI)
      show "length pal' = length pal" by (rule ih)
    next
      fix k assume k: "k < length pal"
      show "pal' ! k = (if i \<le> int k \<and> int k < n then palette_entry E (src ! k) else pal ! k)"
      proof (cases "k = nat i")
        case True
        with ih(2) [OF k] ok \<open>i < n\<close> k show ?thesis by simp
      next
        case False
        with ih(2) [OF k] ok k show ?thesis by (auto simp: nth_list_update)
      qed
    qed
  qed
qed

text \<open>The loop returns whenever \<open>n\<close> exceeds neither array.\<close>

lemma palette_loop_returns:
  "0 \<le> i \<Longrightarrow> n \<le> int (length src) \<Longrightarrow> n \<le> int (length pal) \<Longrightarrow>
     \<exists>pal'. palette_loop E src i n pal = Inr pal'"
proof (induction E src i n pal rule: palette_loop.induct)
  case (1 E src i n pal)
  show ?case
  proof (cases "i < n")
    case False
    then show ?thesis by (simp add: palette_loop.simps [of E src i n pal])
  next
    case True
    with "1.prems" have ok: "0 \<le> i \<and> nat i < length src \<and> nat i < length pal" by auto
    from "1.IH" [OF True ok] "1.prems" have
      "\<exists>pal'. palette_loop E src (i + 1) n (pal[nat i := palette_entry E (src ! nat i)]) = Inr pal'"
      by simp
    with True ok show ?thesis by (simp add: palette_loop.simps [of E src i n pal])
  qed
qed

text \<open>
  The macro packs its four bytes as A, R, G, B from the most significant byte down; the
  alpha byte of a palette entry is \<^verbatim>\<open>yuv_pal[3]\<close> as it stands.
\<close>

lemma DPM_RGBA32_bytes:
  "ucast (drop_bit 24 (DPM_RGBA32 a r g b)) = a \<and>
   ucast (drop_bit 16 (DPM_RGBA32 a r g b)) = r \<and>
   ucast (drop_bit 8 (DPM_RGBA32 a r g b)) = g \<and>
   ucast (DPM_RGBA32 a r g b) = b"
  unfolding DPM_RGBA32_def
  by (intro conjI; rule bit_word_eqI) (auto simp: bit_simps dest: bit_imp_le_length)

lemma palette_entry_alpha:
  "ucast (drop_bit 24 (palette_entry E (p0, p1, p2, p3))) = p3"
  by (simp add: palette_entry_def DPM_RGBA32_bytes)

subsection \<open>The calls of one invocation\<close>

lemma vc_call_appends:
  "vc_call E req s = (r, s') \<Longrightarrow> s' = s\<lparr>vc_log := vc_log s @ [(req, r)]\<rparr>"
  by (auto simp: vc_call_def Let_def)

lemma push_palette_log:
  assumes "push_palette E fmt src_res s = Inr s'"
  shows "filter_obj s' = filter_obj s \<and> released s' = released s \<and>
         bcm_host_inits s' = bcm_host_inits s \<and>
         (if i_chroma fmt = VLC_CODEC_YUVP
          then \<exists>r. vc_log s' = vc_log s @ [(Resource_set_palette src_res (Filter_palette s') 0 sizeof_palette, r)]
          else vc_log s' = vc_log s \<and> Filter_palette s' = Filter_palette s)"
  using assms
  by (auto simp: push_palette_def vc_call_def Let_def split: if_splits option.splits sum.splits)

text \<open>
  Every run of lines 120 to 190 that returns adds the same calls to the log, in the same
  order; the palette call is there exactly for a YUVP input. The picture it returns is
  never \<^verbatim>\<open>NULL\<close>.
\<close>

lemma Filter_scale_log:
  assumes "Filter_scale E pic pic_dst s = Inr (out, s')"
  shows "\<exists>dest disp upd src el r1 r2 r3 r4 r5 r6 r7 pal_evs ty w h dr sr al.
     vc_log s' = vc_log s @
       [(Resource_create VC_IMAGE_RGBA32 (i_width (fmt_out (filter_obj s))) (i_height (fmt_out (filter_obj s))), dest),
        (Display_open_offscreen dest DISPMANX_NO_ROTATE, disp),
        (Update_start 0, upd),
        (Resource_create ty w h, src),
        (Resource_write_data src ty (i_pitch pic) (p_pixels pic)
           (VC_RECT 0 0 (i_width (fmt_in (filter_obj s))) (i_height (fmt_in (filter_obj s)))), r1)]
       @ pal_evs @
       [(Element_add upd disp 0 dr src sr DISPMANX_PROTECTION_NONE al VC_IMAGE_ROT0, el),
        (Update_submit_sync upd, r2),
        (Resource_read_data dest dr (i_pitch pic_dst), r3),
        (Element_remove upd el, r4),
        (Display_close disp, r5),
        (Resource_delete src, r6),
        (Resource_delete dest, r7)] \<and>
     (if i_chroma (fmt_in (filter_obj s)) = VLC_CODEC_YUVP
      then \<exists>r. pal_evs = [(Resource_set_palette src (Filter_palette s') 0 sizeof_palette, r)]
      else pal_evs = [] \<and> Filter_palette s' = Filter_palette s) \<and>
     filter_obj s' = filter_obj s \<and> released s' = released s @ [pic] \<and>
     bcm_host_inits s' = bcm_host_inits s \<and> out \<noteq> None"
  using assms unfolding Filter_scale_def
  apply (clarsimp simp: Let_def vc_dispmanx_rect_set_def picture_Release_def
      split: prod.splits sum.splits)
  apply (drule vc_call_appends)+
  apply (drule push_palette_log)
  apply (cases "i_chroma (fmt_in (filter_obj s)) = VLC_CODEC_YUVP")
   apply auto
  done

text \<open>For a YUVP input the static buffer after the run is what the loop made of it.\<close>

lemma push_palette_loop:
  assumes "push_palette E fmt src_res s = Inr s'" and "i_chroma fmt = VLC_CODEC_YUVP"
  shows "\<exists>pl. p_palette fmt = Some pl \<and>
           palette_loop E (palette pl) 0 (i_entries pl) (Filter_palette s) = Inr (Filter_palette s')"
  using assms
  by (auto simp: push_palette_def vc_call_def Let_def split: option.splits sum.splits)

lemma Filter_scale_palette:
  assumes "Filter_scale E pic pic_dst s = Inr (out, s')"
    and "i_chroma (fmt_in (filter_obj s)) = VLC_CODEC_YUVP"
  shows "\<exists>pl. p_palette (fmt_in (filter_obj s)) = Some pl \<and>
           palette_loop E (palette pl) 0 (i_entries pl) (Filter_palette s) = Inr (Filter_palette s')"
  using assms unfolding Filter_scale_def
  apply (clarsimp simp: Let_def vc_dispmanx_rect_set_def picture_Release_def
      split: prod.splits sum.splits)
  apply (drule vc_call_appends)+
  apply (drule push_palette_loop)
   apply auto
  done

text \<open>
  Lines 120 to 190 have no failure path of their own: they return a picture unless the
  palette loop faults (a missing palette, or more entries than an array holds).
\<close>

lemma push_palette_returns:
  assumes "palette_ready fmt (Filter_palette s)"
  shows "\<exists>s'. push_palette E fmt src_res s = Inr s'"
proof (cases "i_chroma fmt = VLC_CODEC_YUVP")
  case False
  then show ?thesis by (simp add: push_palette_def)
next
  case True
  with assms obtain pl where pl: "p_palette fmt = Some pl"
    "i_entries pl \<le> int (length (palette pl))" "i_entries pl \<le> int (length (Filter_palette s))"
    by (auto simp: palette_ready_def split: option.splits)
  from palette_loop_returns [OF _ pl(2,3), of 0 E] obtain pal' where
    "palette_loop E (palette pl) 0 (i_entries pl) (Filter_palette s) = Inr pal'" by auto
  with True pl(1) show ?thesis by (simp add: push_palette_def)
qed

lemma Filter_scale_returns:
  assumes "palette_ready (fmt_in (filter_obj s)) (Filter_palette s)"
  shows "\<exists>out s'. Filter_scale E pic pic_dst s = Inr (Some out, s')"
proof -
  let ?fo = "fmt_out (filter_obj s)" and ?fi = "fmt_in (filter_obj s)"
  let ?ty = "if i_chroma ?fi = VLC_CODEC_YUVP then VC_IMAGE_8BPP
             else if i_chroma ?fi = VLC_CODEC_YUVA then VC_IMAGE_YUV420 else VC_IMAGE_RGBA32"
  let ?dr = "vc_dispmanx_rect_set 0 0 (i_width ?fo) (i_height ?fo)"
  let ?sr = "vc_dispmanx_rect_set 0 0 (push_bit 16 (i_width ?fi)) (push_bit 16 (i_height ?fi))"
  let ?br = "vc_dispmanx_rect_set 0 0 (i_width ?fi) (i_height ?fi)"
  let ?al = "VC_DISPMANX_ALPHA [DISPMANX_FLAGS_ALPHA_FROM_SOURCE, DISPMANX_FLAGS_ALPHA_MIX] 255
               DISPMANX_NO_HANDLE"
  obtain dest s1 where c1:
    "vc_call E (Resource_create VC_IMAGE_RGBA32 (i_width ?fo) (i_height ?fo)) s = (dest, s1)"
    by fastforce
  obtain disp s2 where c2: "vc_call E (Display_open_offscreen dest DISPMANX_NO_ROTATE) s1 = (disp, s2)"
    by fastforce
  obtain upd s3 where c3: "vc_call E (Update_start 0) s2 = (upd, s3)"
    by fastforce
  obtain src s4 where c4:
    "vc_call E (Resource_create ?ty (i_width ?fi OR push_bit 16 (i_pitch pic))
                  (i_height ?fi OR push_bit 16 (i_height ?fi))) s3 = (src, s4)"
    by fastforce
  obtain r1 s5 where c5:
    "vc_call E (Resource_write_data src ?ty (i_pitch pic) (p_pixels pic) ?br) s4 = (r1, s5)"
    by fastforce
  note a = vc_call_appends [OF c1] vc_call_appends [OF c2] vc_call_appends [OF c3]
    vc_call_appends [OF c4] vc_call_appends [OF c5]
  have f2: "filter_obj s2 = filter_obj s" and p5: "Filter_palette s5 = Filter_palette s"
    by (simp_all add: a)
  from push_palette_returns [of ?fi s5 E src] assms p5
  obtain s6 where p: "push_palette E ?fi src s5 = Inr s6" by auto
  obtain el s7 where c7:
    "vc_call E (Element_add upd disp 0 ?dr src ?sr DISPMANX_PROTECTION_NONE ?al VC_IMAGE_ROT0) s6 = (el, s7)"
    by fastforce
  obtain r2 s8 where c8: "vc_call E (Update_submit_sync upd) s7 = (r2, s8)"
    by fastforce
  obtain r3 s9 where c9: "vc_call E (Resource_read_data dest ?dr (i_pitch pic_dst)) s8 = (r3, s9)"
    by fastforce
  obtain r4 s10 where c10: "vc_call E (Element_remove upd el) s9 = (r4, s10)"
    by fastforce
  obtain r5 s11 where c11: "vc_call E (Display_close disp) s10 = (r5, s11)"
    by fastforce
  obtain r6 s12 where c12: "vc_call E (Resource_delete src) s11 = (r6, s12)"
    by fastforce
  obtain r7 s13 where c13: "vc_call E (Resource_delete dest) s12 = (r7, s13)"
    by fastforce
  show ?thesis
    unfolding Filter_scale_def
    by (simp add: Let_def c1 c2 c3 f2 c4 c5 p c7 c8 c9 c10 c11 c12 c13 split del: if_split)
qed

text \<open>
  \<open>Filter\<close> returns a picture only along one path: past the guards, with a picture
  from the allocator, through lines 120 to 190 on the state with the adjusted output
  format.
\<close>

lemma Filter_returns_picture:
  assumes "Filter E pic_opt s = Inr (Some out, s')"
  shows "\<exists>pic pic_dst.
     pic_opt = Some pic \<and> passes_guards pic_opt s \<and>
     filter_NewPicture E ((filter_obj s)\<lparr>fmt_out :=
        video_format_ScaleCropAr E (fmt_out (filter_obj s)) (fmt_in (filter_obj s))\<rparr>) = Some pic_dst \<and>
     Filter_scale E pic pic_dst (s\<lparr>filter_obj := (filter_obj s)\<lparr>fmt_out :=
        video_format_ScaleCropAr E (fmt_out (filter_obj s)) (fmt_in (filter_obj s))\<rparr>\<rparr>) = Inr (Some out, s')"
  using assms
  by (auto simp: Filter_def passes_guards_def Let_def split: option.splits if_splits)

lemma Filter_calls:
  assumes "Filter E pic_opt s = Inr (Some out, s')"
  shows "\<exists>pic (pic_dst :: picture_t) dest disp upd src el r1 r2 r3 r4 r5 r6 r7 pal_evs ty w h dr sr al.
     pic_opt = Some pic \<and>
     vc_log s' = vc_log s @ calls_since s s' \<and>
     calls_since s s' =
       [(Resource_create VC_IMAGE_RGBA32 (i_width (fmt_out (filter_obj s'))) (i_height (fmt_out (filter_obj s'))), dest),
        (Display_open_offscreen dest DISPMANX_NO_ROTATE, disp),
        (Update_start 0, upd),
        (Resource_create ty w h, src),
        (Resource_write_data src ty (i_pitch pic) (p_pixels pic)
           (VC_RECT 0 0 (i_width (fmt_in (filter_obj s))) (i_height (fmt_in (filter_obj s)))), r1)]
       @ pal_evs @
       [(Element_add upd disp 0 dr src sr DISPMANX_PROTECTION_NONE al VC_IMAGE_ROT0, el),
        (Update_submit_sync upd, r2),
        (Resource_read_data dest dr (i_pitch pic_dst), r3),
        (Element_remove upd el, r4),
        (Display_close disp, r5),
        (Resource_delete src, r6),
        (Resource_delete dest, r7)] \<and>
     (if i_chroma (fmt_in (filter_obj s)) = VLC_CODEC_YUVP
      then \<exists>r. pal_evs = [(Resource_set_palette src (Filter_palette s') 0 sizeof_palette, r)]
      else pal_evs = [] \<and> Filter_palette s' = Filter_palette s) \<and>
     released s' = released s @ [pic]"
proof -
  let ?s1 = "s\<lparr>filter_obj := (filter_obj s)\<lparr>fmt_out :=
        video_format_ScaleCropAr E (fmt_out (filter_obj s)) (fmt_in (filter_obj s))\<rparr>\<rparr>"
  from Filter_returns_picture [OF assms] obtain pic pic_dst where
    pic: "pic_opt = Some pic" and run: "Filter_scale E pic pic_dst ?s1 = Inr (Some out, s')"
    by blast
  from Filter_scale_log [OF run] obtain dest disp upd src el r1 r2 r3 r4 r5 r6 r7 pal_evs ty w h dr sr al
    where log: "vc_log s' = vc_log ?s1 @
       [(Resource_create VC_IMAGE_RGBA32 (i_width (fmt_out (filter_obj ?s1))) (i_height (fmt_out (filter_obj ?s1))), dest),
        (Display_open_offscreen dest DISPMANX_NO_ROTATE, disp),
        (Update_start 0, upd),
        (Resource_create ty w h, src),
        (Resource_write_data src ty (i_pitch pic) (p_pixels pic)
           (VC_RECT 0 0 (i_width (fmt_in (filter_obj ?s1))) (i_height (fmt_in (filter_obj ?s1)))), r1)]
       @ pal_evs @
       [(Element_add upd disp 0 dr src sr DISPMANX_PROTECTION_NONE al VC_IMAGE_ROT0, el),
        (Update_submit_sync upd, r2),
        (Resource_read_data dest dr (i_pitch pic_dst), r3),
        (Element_remove upd el, r4),
        (Display_close disp, r5),
        (Resource_delete src, r6),
        (Resource_delete dest, r7)]"
     and pal: "if i_chroma (fmt_in (filter_obj ?s1)) = VLC_CODEC_YUVP
      then \<exists>r. pal_evs = [(Resource_set_palette src (Filter_palette s') 0 sizeof_palette, r)]
      else pal_evs = [] \<and> Filter_palette s' = Filter_palette ?s1"
     and rest: "filter_obj s' = filter_obj ?s1" "released s' = released ?s1 @ [pic]"
    by blast
  show ?thesis
    apply (rule exI [of _ pic], rule exI [of _ pic_dst], rule exI [of _ dest], rule exI [of _ disp],
        rule exI [of _ upd], rule exI [of _ src], rule exI [of _ el], rule exI [of _ r1],
        rule exI [of _ r2], rule exI [of _ r3], rule exI [of _ r4], rule exI [of _ r5],
        rule exI [of _ r6], rule exI [of _ r7], rule exI [of _ pal_evs], rule exI [of _ ty],
        rule exI [of _ w], rule exI [of _ h], rule exI [of _ dr], rule exI [of _ sr],
        rule exI [of _ al])
    using pal by (simp add: pic log rest calls_since_def)
qed

text \<open>Whatever \<open>Filter\<close> returns, the filter object changes in its output format only.\<close>

lemma Filter_filter_obj:
  "Filter E pic_opt s = Inr (out, s') \<Longrightarrow>
   filter_obj s' = (filter_obj s)\<lparr>fmt_out :=
      (if passes_guards pic_opt s
       then video_format_ScaleCropAr E (fmt_out (filter_obj s)) (fmt_in (filter_obj s))
       else fmt_out (filter_obj s))\<rparr>"
  by (auto simp: Filter_def passes_guards_def Let_def picture_Release_def
      split: option.splits if_splits dest!: Filter_scale_log)

subsection \<open>Format negotiation\<close>

text \<open>
  C1. \<open>OpenFilter\<close> returns \<open>VLC_SUCCESS\<close> exactly when the input chroma is one of YUVP,
  YUVA, RGB32 and RGBA, the output chroma is RGBA and both orientations are equal; in
  every other case it returns \<open>VLC_EGENERIC\<close>. On success the filter callback is
  installed (and the host library initialised); on rejection nothing changes.
\<close>

theorem OpenFilter_format_gate:
  "(fst (OpenFilter s) = VLC_SUCCESS) =
     (i_chroma (fmt_in (filter_obj s)) \<in> {VLC_CODEC_YUVP, VLC_CODEC_YUVA, VLC_CODEC_RGB32, VLC_CODEC_RGBA} \<and>
      i_chroma (fmt_out (filter_obj s)) = VLC_CODEC_RGBA \<and>
      orientation (fmt_in (filter_obj s)) = orientation (fmt_out (filter_obj s))) \<and>
   (fst (OpenFilter s) = VLC_EGENERIC) = (fst (OpenFilter s) \<noteq> VLC_SUCCESS) \<and>
   snd (OpenFilter s) =
     (if fst (OpenFilter s) = VLC_SUCCESS
      then s\<lparr>bcm_host_inits := Suc (bcm_host_inits s),
             filter_obj := (filter_obj s)\<lparr>pf_video_filter := Some Filter_cb\<rparr>\<rparr>
      else s)"
  by (auto simp: OpenFilter_def Let_def)

theorem OpenFilter_format_gate_witness:
  "OpenFilter (world_unopened (fmt_rgba 2 2) (fmt_rgba 8 4)) = (VLC_SUCCESS, world0) \<and>
   fst (OpenFilter (world_unopened (fmt_yuvp 2 (16, 128, 128, 0)) (fmt_rgba 4 4))) = VLC_SUCCESS \<and>
   OpenFilter (world_unopened (fmt_rgba 2 2) (fmt_yuvp 2 (16, 128, 128, 0))) =
     (VLC_EGENERIC, world_unopened (fmt_rgba 2 2) (fmt_yuvp 2 (16, 128, 128, 0))) \<and>
   fst (OpenFilter (world_unopened (fmt_rgba 2 2) ((fmt_rgba 4 4)\<lparr>orientation := ORIENT_LEFT_TOP\<rparr>))) =
     VLC_EGENERIC \<and>
   fst (OpenFilter (world_unopened ((fmt_rgba 2 2)\<lparr>i_chroma := VLC_CODEC_OTHER 808596553\<rparr>) (fmt_rgba 4 4))) =
     VLC_EGENERIC"
proof -
  have split: "\<And>p a b. fst p = a \<Longrightarrow> snd p = b \<Longrightarrow> p = (a, b)" by auto
  note gate = OpenFilter_format_gate
  have accepted: "OpenFilter (world_unopened (fmt_rgba 2 2) (fmt_rgba 8 4)) = (VLC_SUCCESS, world0)"
    using gate [of "world_unopened (fmt_rgba 2 2) (fmt_rgba 8 4)"]
    by (intro split) (simp_all add: world_unopened_def world0_def world_of_def fmt_rgba_def)
  have rejected: "OpenFilter (world_unopened (fmt_rgba 2 2) (fmt_yuvp 2 (16, 128, 128, 0))) =
     (VLC_EGENERIC, world_unopened (fmt_rgba 2 2) (fmt_yuvp 2 (16, 128, 128, 0)))"
    using gate [of "world_unopened (fmt_rgba 2 2) (fmt_yuvp 2 (16, 128, 128, 0))"]
    by (intro split) (simp_all add: world_unopened_def fmt_rgba_def fmt_yuvp_def)
  from accepted rejected
    gate [of "world_unopened (fmt_yuvp 2 (16, 128, 128, 0)) (fmt_rgba 4 4)"]
    gate [of "world_unopened (fmt_rgba 2 2) ((fmt_rgba 4 4)\<lparr>orientation := ORIENT_LEFT_TOP\<rparr>)"]
    gate [of "world_unopened ((fmt_rgba 2 2)\<lparr>i_chroma := VLC_CODEC_OTHER 808596553\<rparr>) (fmt_rgba 4 4)"]
  show ?thesis
    by (simp add: world_unopened_def fmt_rgba_def fmt_yuvp_def)
qed

subsection \<open>The early returns of Filter\<close>

text \<open>
  C5. When the input picture is \<^verbatim>\<open>NULL\<close>, or a width or height of the input or
  output format is 0, \<open>Filter\<close> returns \<^verbatim>\<open>NULL\<close> and leaves the whole state as it
  was: no call reaches the accelerator.
\<close>

theorem Filter_fast_reject:
  assumes "pic_opt = None \<or>
           i_width (fmt_in (filter_obj s)) = 0 \<or> i_height (fmt_in (filter_obj s)) = 0 \<or>
           i_width (fmt_out (filter_obj s)) = 0 \<or> i_height (fmt_out (filter_obj s)) = 0"
  shows "Filter E pic_opt s = Inr (None, s) \<and> calls_since s (world_after E pic_opt s) = []"
  using assms by (auto simp: Filter_def world_after_def calls_since_def split: option.splits)

theorem Filter_fast_reject_witness:
  "Filter env0 None world0 = Inr (None, world0) \<and>
   calls_since world0 (world_after env0 None world0) = [] \<and>
   Filter env0 (Some pic0) (world_of (fmt_rgba 2 2) (fmt_rgba 0 4)) =
     Inr (None, world_of (fmt_rgba 2 2) (fmt_rgba 0 4)) \<and>
   calls_since (world_of (fmt_rgba 2 2) (fmt_rgba 0 4))
     (world_after env0 (Some pic0) (world_of (fmt_rgba 2 2) (fmt_rgba 0 4))) = []"
  using Filter_fast_reject [of None world0 env0]
    Filter_fast_reject [of "Some pic0" "world_of (fmt_rgba 2 2) (fmt_rgba 0 4)" env0]
  by (simp add: world_of_def fmt_rgba_def)

text \<open>
  C4. With a picture at hand and an input width of 0, \<open>Filter\<close> returns \<^verbatim>\<open>NULL\<close>
  and the list of released pictures stays empty: the input picture is not released.
  When the allocator fails, on the other hand, the input picture is released.
\<close>

theorem Filter_zero_width_keeps_input:
  "Filter env0 (Some pic0) (world_of (fmt_rgba 0 2) (fmt_rgba 8 4)) =
     Inr (None, world_of (fmt_rgba 0 2) (fmt_rgba 8 4)) \<and>
   released (world_after env0 (Some pic0) (world_of (fmt_rgba 0 2) (fmt_rgba 8 4))) = [] \<and>
   released (world_after env_no_picture (Some pic0) world0) = [pic0]"
  by (simp add: Filter_def world_after_def world_of_def world0_def fmt_rgba_def env_no_picture_def
      env0_def picture_Release_def)

subsection \<open>The sample runs\<close>

lemmas run_defs = Filter_def Filter_scale_def push_palette_def vc_call_def Let_def
  picture_Release_def picture_CopyProperties_def vc_dispmanx_rect_set_def world_after_def

lemmas sample_defs = env0_def world0_def world_of_def fmt_rgba_def fmt_yuvp_def pic0_def out0_def

lemma sample_run:
  "Filter env0 (Some pic0) world0 = Inr (Some out0, world_after env0 (Some pic0) world0)"
  by (simp add: run_defs sample_defs)

lemma sample_run_fresh:
  "Filter env0 (Some pic0) world_yuvp_fresh =
     Inr (Some out0, world_after env0 (Some pic0) world_yuvp_fresh)"
  by (simp add: run_defs sample_defs world_yuvp_fresh_def palette_loop.simps)

lemma sample_run_used:
  "Filter env0 (Some pic0) world_yuvp_used =
     Inr (Some out0, world_after env0 (Some pic0) world_yuvp_used)"
  by (simp add: run_defs sample_defs world_yuvp_used_def world_yuvp_fresh_def palette_loop.simps)

subsection \<open>Allocation failure\<close>

text \<open>Past the guards, with a picture from the allocator and a palette that fits, \<open>Filter\<close>
  returns a picture.\<close>

lemma Filter_returns:
  assumes "passes_guards (Some pic) s"
    and "filter_NewPicture E ((filter_obj s)\<lparr>fmt_out :=
           video_format_ScaleCropAr E (fmt_out (filter_obj s)) (fmt_in (filter_obj s))\<rparr>) \<noteq> None"
    and "palette_ready (fmt_in (filter_obj s)) (Filter_palette s)"
  shows "\<exists>out s'. Filter E (Some pic) s = Inr (Some out, s')"
proof -
  let ?s1 = "s\<lparr>filter_obj := (filter_obj s)\<lparr>fmt_out :=
        video_format_ScaleCropAr E (fmt_out (filter_obj s)) (fmt_in (filter_obj s))\<rparr>\<rparr>"
  from assms(2) obtain pic_dst where new: "filter_NewPicture E (filter_obj ?s1) = Some pic_dst"
    by auto
  from assms(3) have "palette_ready (fmt_in (filter_obj ?s1)) (Filter_palette ?s1)" by simp
  from Filter_scale_returns [OF this, of E pic pic_dst] obtain out s'
    where "Filter_scale E pic pic_dst ?s1 = Inr (Some out, s')" by blast
  with assms(1) new have "Filter E (Some pic) s = Inr (Some out, s')"
    by (simp add: Filter_def passes_guards_def Let_def)
  then show ?thesis by blast
qed

text \<open>
  C6. When the allocator has no picture, \<open>Filter\<close> releases the input picture and
  returns \<^verbatim>\<open>NULL\<close>; no call has reached the accelerator, so no hardware resource
  exists. The state left behind differs from the state before in the adjusted output
  format and the released picture only, and it is fit for the next call: as soon as the
  allocator delivers again (the geometry still being non-zero and the palette fitting),
  \<open>Filter\<close> returns a picture.
\<close>

theorem Filter_allocation_failure:
  assumes "passes_guards (Some pic) s"
    and "filter_NewPicture E ((filter_obj s)\<lparr>fmt_out :=
           video_format_ScaleCropAr E (fmt_out (filter_obj s)) (fmt_in (filter_obj s))\<rparr>) = None"
  shows "Filter E (Some pic) s =
           Inr (None, s\<lparr>filter_obj := (filter_obj s)\<lparr>fmt_out :=
                         video_format_ScaleCropAr E (fmt_out (filter_obj s)) (fmt_in (filter_obj s))\<rparr>,
                       released := released s @ [pic]\<rparr>) \<and>
         calls_since s (world_after E (Some pic) s) = [] \<and>
         (\<forall>E' pic'.
            passes_guards (Some pic') (world_after E (Some pic) s) \<and>
            palette_ready (fmt_in (filter_obj s)) (Filter_palette s) \<and>
            filter_NewPicture E' ((filter_obj (world_after E (Some pic) s))\<lparr>fmt_out :=
               video_format_ScaleCropAr E' (fmt_out (filter_obj (world_after E (Some pic) s)))
                 (fmt_in (filter_obj s))\<rparr>) \<noteq> None
            \<longrightarrow> (\<exists>out s''. Filter E' (Some pic') (world_after E (Some pic) s) = Inr (Some out, s'')))"
proof -
  let ?s1 = "s\<lparr>filter_obj := (filter_obj s)\<lparr>fmt_out :=
                video_format_ScaleCropAr E (fmt_out (filter_obj s)) (fmt_in (filter_obj s))\<rparr>,
              released := released s @ [pic]\<rparr>"
  from assms have run: "Filter E (Some pic) s = Inr (None, ?s1)"
    by (simp add: Filter_def passes_guards_def Let_def picture_Release_def)
  then have after: "world_after E (Some pic) s = ?s1"
    by (simp add: world_after_def)
  have "calls_since s ?s1 = []" by (simp add: calls_since_def)
  moreover have "\<exists>out s''. Filter E' (Some pic') ?s1 = Inr (Some out, s'')"
    if "passes_guards (Some pic') ?s1"
      and "palette_ready (fmt_in (filter_obj s)) (Filter_palette s)"
      and "filter_NewPicture E' ((filter_obj ?s1)\<lparr>fmt_out :=
               video_format_ScaleCropAr E' (fmt_out (filter_obj ?s1)) (fmt_in (filter_obj s))\<rparr>) \<noteq> None"
    for E' pic'
    using Filter_returns [of pic' ?s1 E'] that by simp
  ultimately show ?thesis using run unfolding after by blast
qed

theorem Filter_allocation_failure_witness:
  "Filter env_no_picture (Some pic0) world0 =
     Inr (None, world0\<lparr>filter_obj := (filter_obj world0)\<lparr>fmt_out := fmt_rgba 4 4\<rparr>,
                      released := [pic0]\<rparr>) \<and>
   calls_since world0 (world_after env_no_picture (Some pic0) world0) = [] \<and>
   (\<exists>out s''. Filter env0 (Some pic0) (world_after env_no_picture (Some pic0) world0) =
      Inr (Some out, s''))"
proof -
  have guards: "passes_guards (Some pic0) world0"
    by (simp add: passes_guards_def sample_defs)
  have none: "filter_NewPicture env_no_picture ((filter_obj world0)\<lparr>fmt_out :=
      video_format_ScaleCropAr env_no_picture (fmt_out (filter_obj world0))
        (fmt_in (filter_obj world0))\<rparr>) = None"
    by (simp add: env_no_picture_def)
  note inst = Filter_allocation_failure [OF guards none]
  have after: "world_after env_no_picture (Some pic0) world0 =
      world0\<lparr>filter_obj := (filter_obj world0)\<lparr>fmt_out := fmt_rgba 4 4\<rparr>, released := [pic0]\<rparr>"
    by (simp add: run_defs sample_defs env_no_picture_def)
  from inst have next_call:
    "passes_guards (Some pic0) (world_after env_no_picture (Some pic0) world0) \<and>
     palette_ready (fmt_in (filter_obj world0)) (Filter_palette world0) \<and>
     filter_NewPicture env0 ((filter_obj (world_after env_no_picture (Some pic0) world0))\<lparr>fmt_out :=
        video_format_ScaleCropAr env0 (fmt_out (filter_obj (world_after env_no_picture (Some pic0) world0)))
          (fmt_in (filter_obj world0))\<rparr>) \<noteq> None
     \<longrightarrow> (\<exists>out s''. Filter env0 (Some pic0) (world_after env_no_picture (Some pic0) world0) =
            Inr (Some out, s''))"
    by blast
  have "\<exists>out s''. Filter env0 (Some pic0) (world_after env_no_picture (Some pic0) world0) =
            Inr (Some out, s'')"
    using next_call unfolding after
    by (simp add: passes_guards_def palette_ready_def sample_defs)
  with inst show ?thesis
    unfolding after by (simp add: sample_defs env_no_picture_def calls_since_def)
qed

subsection \<open>The accelerator calls of a run that returns a picture\<close>

text \<open>
  C3. In every run of \<open>Filter\<close> that returns a picture, the calls it adds to the log
  hold as many resource-create calls as resource-delete calls (two each), one display
  open and one display close, one update start and one update submit, and after the
  last call none of the objects the accelerator handed out in this run (resources,
  display, update, element) is still held.
\<close>

theorem Filter_resources_balanced:
  assumes "Filter E pic_opt s = Inr (Some out, s')"
  shows "vc_log s' = vc_log s @ calls_since s s' \<and>
         count_calls vc_dispmanx_resource_create (calls_since s s') =
           count_calls vc_dispmanx_resource_delete (calls_since s s') \<and>
         count_calls vc_dispmanx_resource_create (calls_since s s') = 2 \<and>
         count_calls vc_dispmanx_display_open_offscreen (calls_since s s') = 1 \<and>
         count_calls vc_dispmanx_display_close (calls_since s s') = 1 \<and>
         count_calls vc_dispmanx_update_start (calls_since s s') = 1 \<and>
         count_calls vc_dispmanx_update_submit_sync (calls_since s s') = 1 \<and>
         still_held [] (calls_since s s') = []"
  using Filter_calls [OF assms]
  by (elim exE conjE) (auto simp: count_calls_def called_def split: if_splits)

theorem Filter_resources_balanced_witness:
  "Filter env0 (Some pic0) world0 = Inr (Some out0, world_after env0 (Some pic0) world0) \<and>
   count_calls vc_dispmanx_resource_create (calls_since world0 (world_after env0 (Some pic0) world0)) = 2 \<and>
   count_calls vc_dispmanx_resource_delete (calls_since world0 (world_after env0 (Some pic0) world0)) = 2 \<and>
   count_calls vc_dispmanx_display_open_offscreen (calls_since world0 (world_after env0 (Some pic0) world0)) = 1 \<and>
   count_calls vc_dispmanx_display_close (calls_since world0 (world_after env0 (Some pic0) world0)) = 1 \<and>
   still_held [] (calls_since world0 (world_after env0 (Some pic0) world0)) = []"
  using Filter_resources_balanced [OF sample_run] sample_run by simp

text \<open>
  C7, as stated: teardown runs in strict reverse-acquisition order. In the sample run
  the objects are acquired in the order destination resource 1, display 2, update 3,
  source resource 4, element 6, and torn down in the order element, display, source
  resource, destination resource; the reverse of the acquisition order would delete the
  source resource before closing the display, which was opened before that resource was
  created.
\<close>

theorem teardown_is_not_reverse_acquisition:
  "acquisitions (calls_since world0 (world_after env0 (Some pic0) world0)) =
     [Resource 1, Display 2, Update 3, Resource 4, Element 6] \<and>
   teardown (calls_since world0 (world_after env0 (Some pic0) world0)) =
     [Element 6, Display 2, Resource 4, Resource 1] \<and>
   rev (filter (\<lambda>obj. obj \<in> set (teardown (calls_since world0 (world_after env0 (Some pic0) world0))))
          (acquisitions (calls_since world0 (world_after env0 (Some pic0) world0)))) =
     [Element 6, Resource 4, Display 2, Resource 1] \<and>
   teardown (calls_since world0 (world_after env0 (Some pic0) world0)) \<noteq>
     rev (filter (\<lambda>obj. obj \<in> set (teardown (calls_since world0 (world_after env0 (Some pic0) world0))))
            (acquisitions (calls_since world0 (world_after env0 (Some pic0) world0))))"
  by (simp add: run_defs sample_defs calls_since_def acquisitions_def teardown_def)

text \<open>
  C7, amended. Every run of \<open>Filter\<close> that returns a picture (the only runs that reach
  the teardown) ends with exactly four teardown calls, in this order: the element is
  removed, the display is closed, the source resource is deleted, the destination resource
  is deleted; no teardown call comes earlier. The handles are the ones the run acquired:
  destination resource, display, update, source resource and element, in that order. So
  the order is the reverse of the acquisition order except for the display.
\<close>

theorem Filter_teardown_order:
  assumes "Filter E pic_opt s = Inr (Some out, s')"
  shows "\<exists>dest disp upd src el.
     acquisitions (calls_since s s') =
       [Resource dest, Display disp, Update upd, Resource src, Element el] \<and>
     map fst (drop (length (calls_since s s') - 4) (calls_since s s')) =
       [Element_remove upd el, Display_close disp, Resource_delete src, Resource_delete dest] \<and>
     teardown (calls_since s s') = [Element el, Display disp, Resource src, Resource dest] \<and>
     teardown (take (length (calls_since s s') - 4) (calls_since s s')) = []"
  using Filter_calls [OF assms]
  apply (elim exE conjE)
  subgoal for pic pic_dst dest disp upd src el
    apply (rule exI [of _ dest], rule exI [of _ disp], rule exI [of _ upd], rule exI [of _ src],
        rule exI [of _ el])
    apply (auto simp: acquisitions_def teardown_def split: if_splits)
    done
  done

theorem Filter_teardown_order_witness:
  "Filter env0 (Some pic0) world0 = Inr (Some out0, world_after env0 (Some pic0) world0) \<and>
   (\<exists>dest disp upd src el.
     acquisitions (calls_since world0 (world_after env0 (Some pic0) world0)) =
       [Resource dest, Display disp, Update upd, Resource src, Element el] \<and>
     map fst (drop (length (calls_since world0 (world_after env0 (Some pic0) world0)) - 4) (calls_since world0 (world_after env0 (Some pic0) world0))) =
       [Element_remove upd el, Display_close disp, Resource_delete src, Resource_delete dest] \<and>
     teardown (calls_since world0 (world_after env0 (Some pic0) world0)) = [Element el, Display disp, Resource src, Resource dest] \<and>
     teardown (take (length (calls_since world0 (world_after env0 (Some pic0) world0)) - 4) (calls_since world0 (world_after env0 (Some pic0) world0))) = [])"
  using Filter_teardown_order [OF sample_run] sample_run by simp

text \<open>
  C8, as stated: the upload into the source resource happens before the composition
  session is opened. In the sample runs the display is opened and the update is started
  before the pixels are written, and before the palette is set.
\<close>

theorem upload_follows_update_start:
  "calls_before vc_dispmanx_resource_write_data (calls_since world0 (world_after env0 (Some pic0) world0)) =
     [vc_dispmanx_resource_create, vc_dispmanx_display_open_offscreen,
      vc_dispmanx_update_start, vc_dispmanx_resource_create] \<and>
   vc_dispmanx_update_start \<in> set (calls_before vc_dispmanx_resource_write_data (calls_since world0 (world_after env0 (Some pic0) world0))) \<and>
   vc_dispmanx_display_open_offscreen \<in> set (calls_before vc_dispmanx_resource_write_data (calls_since world0 (world_after env0 (Some pic0) world0))) \<and>
   vc_dispmanx_update_start \<in> set (calls_before vc_dispmanx_resource_set_palette
      (calls_since world_yuvp_fresh (world_after env0 (Some pic0) world_yuvp_fresh)))"
  by (simp add: run_defs sample_defs calls_since_def calls_before_def called_def
      world_yuvp_fresh_def palette_loop.simps)

text \<open>
  C8, amended. In every run of \<open>Filter\<close> that returns a picture the calls are, in order:
  create the destination resource, open the offscreen display on it, start the update,
  create the source resource, write the input picture's pixels into it, for a YUVP input
  set its palette (the whole static buffer), add the one element that places the source
  resource on the display, submit the update synchronously, read the destination
  resource back, then the teardown. So the upload and the palette push come after the
  display is opened and the update is started, inside the update and before the element
  is placed; between start and submit nothing else is called; the submit comes right
  before the read-back.
\<close>

theorem Filter_upload_inside_update:
  assumes "Filter E pic_opt s = Inr (Some out, s')"
  shows "\<exists>pic dest disp upd src el ty w h dr sr al br dst_pitch.
     pic_opt = Some pic \<and>
     map fst (calls_since s s') =
       [Resource_create VC_IMAGE_RGBA32 (i_width (fmt_out (filter_obj s')))
          (i_height (fmt_out (filter_obj s'))),
        Display_open_offscreen dest DISPMANX_NO_ROTATE,
        Update_start 0,
        Resource_create ty w h,
        Resource_write_data src ty (i_pitch pic) (p_pixels pic) br]
       @ (if i_chroma (fmt_in (filter_obj s)) = VLC_CODEC_YUVP
          then [Resource_set_palette src (Filter_palette s') 0 sizeof_palette] else [])
       @ [Element_add upd disp 0 dr src sr DISPMANX_PROTECTION_NONE al VC_IMAGE_ROT0,
          Update_submit_sync upd,
          Resource_read_data dest dr dst_pitch,
          Element_remove upd el,
          Display_close disp,
          Resource_delete src,
          Resource_delete dest] \<and>
     acquisitions (calls_since s s') =
       [Resource dest, Display disp, Update upd, Resource src, Element el] \<and>
     calls_before vc_dispmanx_resource_write_data (calls_since s s') =
       [vc_dispmanx_resource_create, vc_dispmanx_display_open_offscreen,
        vc_dispmanx_update_start, vc_dispmanx_resource_create] \<and>
     calls_between vc_dispmanx_update_start vc_dispmanx_update_submit_sync (calls_since s s') =
       [vc_dispmanx_resource_create, vc_dispmanx_resource_write_data]
       @ (if i_chroma (fmt_in (filter_obj s)) = VLC_CODEC_YUVP
          then [vc_dispmanx_resource_set_palette] else [])
       @ [vc_dispmanx_element_add]"
  using Filter_calls [OF assms]
  apply (elim exE conjE)
  subgoal for pic pic_dst dest disp upd src el r1 r2 r3 r4 r5 r6 r7 pal_evs ty w h dr sr al
    apply (rule exI [of _ pic], rule exI [of _ dest], rule exI [of _ disp], rule exI [of _ upd],
        rule exI [of _ src], rule exI [of _ el], rule exI [of _ ty], rule exI [of _ w],
        rule exI [of _ h], rule exI [of _ dr], rule exI [of _ sr], rule exI [of _ al],
        rule exI [of _ "VC_RECT 0 0 (i_width (fmt_in (filter_obj s))) (i_height (fmt_in (filter_obj s)))"],
        rule exI [of _ "i_pitch pic_dst"])
    apply (auto simp: acquisitions_def calls_before_def calls_between_def called_def split: if_splits)
    done
  done

theorem Filter_upload_inside_update_witness:
  "Filter env0 (Some pic0) world_yuvp_fresh =
     Inr (Some out0, world_after env0 (Some pic0) world_yuvp_fresh) \<and>
   calls_before vc_dispmanx_resource_write_data
     (calls_since world_yuvp_fresh (world_after env0 (Some pic0) world_yuvp_fresh)) =
       [vc_dispmanx_resource_create, vc_dispmanx_display_open_offscreen,
        vc_dispmanx_update_start, vc_dispmanx_resource_create] \<and>
   calls_between vc_dispmanx_update_start vc_dispmanx_update_submit_sync
     (calls_since world_yuvp_fresh (world_after env0 (Some pic0) world_yuvp_fresh)) =
       [vc_dispmanx_resource_create, vc_dispmanx_resource_write_data,
        vc_dispmanx_resource_set_palette, vc_dispmanx_element_add]"
proof -
  have yuvp: "i_chroma (fmt_in (filter_obj world_yuvp_fresh)) = VLC_CODEC_YUVP"
    by (simp add: world_yuvp_fresh_def world_of_def fmt_yuvp_def)
  from Filter_upload_inside_update [OF sample_run_fresh] yuvp sample_run_fresh
  show ?thesis by auto
qed

subsection \<open>The static palette buffer\<close>

text \<open>For a YUVP input, the buffer after the run is the loop's result on the buffer
  before it, and the run makes one palette call: at offset 0, with the byte count
  \<^verbatim>\<open>sizeof(palette)\<close>, which covers the first 256 entries of that buffer.\<close>

lemma Filter_palette_after:
  assumes "Filter E pic_opt s = Inr (Some out, s')"
    and "i_chroma (fmt_in (filter_obj s)) = VLC_CODEC_YUVP"
  shows "\<exists>pl. p_palette (fmt_in (filter_obj s)) = Some pl \<and>
           palette_loop E (palette pl) 0 (i_entries pl) (Filter_palette s) = Inr (Filter_palette s') \<and>
           pushed_palettes (calls_since s s') = [(0, take 256 (Filter_palette s'))] \<and>
           (\<exists>src r. (Resource_set_palette src (Filter_palette s') 0 1024, r) \<in> set (calls_since s s'))"
proof -
  let ?s1 = "s\<lparr>filter_obj := (filter_obj s)\<lparr>fmt_out :=
        video_format_ScaleCropAr E (fmt_out (filter_obj s)) (fmt_in (filter_obj s))\<rparr>\<rparr>"
  from Filter_returns_picture [OF assms(1)] obtain pic pic_dst where
    run: "Filter_scale E pic pic_dst ?s1 = Inr (Some out, s')" by blast
  from assms(2) have "i_chroma (fmt_in (filter_obj ?s1)) = VLC_CODEC_YUVP" by simp
  from Filter_scale_palette [OF run this] obtain pl where
    pl: "p_palette (fmt_in (filter_obj s)) = Some pl"
      "palette_loop E (palette pl) 0 (i_entries pl) (Filter_palette s) = Inr (Filter_palette s')"
    by auto
  have bytes: "unat sizeof_palette div 4 = 256"
    by (simp add: sizeof_palette_def)
  from Filter_calls [OF assms(1)] assms(2)
  have "pushed_palettes (calls_since s s') = [(0, take 256 (Filter_palette s'))] \<and>
        (\<exists>src r. (Resource_set_palette src (Filter_palette s') 0 1024, r) \<in> set (calls_since s s'))"
    by (elim exE conjE) (auto simp: pushed_palettes_def bytes sizeof_palette_def)
  with pl show ?thesis by blast
qed

text \<open>
  C9. The palette buffer is part of the state that outlives the call. A YUVP run that
  returns a picture makes one palette call, at offset 0 and with a byte count of 1024,
  so it uploads 256 entries, the whole buffer, whatever \<open>i_entries\<close> is: the entries
  below \<open>i_entries\<close> are converted from the current palette, all others are what the
  buffer held before the call. Hence two runs with the same environment, picture and
  filter object, started on buffers that differ in a slot at or above \<open>i_entries\<close>,
  upload different palettes.
\<close>

theorem Filter_palette_push_depends_on_history:
  assumes run_s: "Filter E pic_opt s = Inr (Some out, s')"
    and run_t: "Filter E pic_opt t = Inr (Some out', t')"
    and same: "filter_obj t = filter_obj s"
    and yuvp: "i_chroma (fmt_in (filter_obj s)) = VLC_CODEC_YUVP"
    and pal: "p_palette (fmt_in (filter_obj s)) = Some pl"
    and len: "length (Filter_palette s) = 256" "length (Filter_palette t) = 256"
    and k: "i_entries pl \<le> int k" "k < 256"
    and differ: "Filter_palette s ! k \<noteq> Filter_palette t ! k"
  shows "pushed_palettes (calls_since s s') = [(0, Filter_palette s')] \<and>
         pushed_palettes (calls_since t t') = [(0, Filter_palette t')] \<and>
         map (\<lambda>up. length (snd up)) (pushed_palettes (calls_since s s')) = [256] \<and>
         map (\<lambda>up. length (snd up)) (pushed_palettes (calls_since t t')) = [256] \<and>
         (\<exists>src r. (Resource_set_palette src (Filter_palette s') 0 1024, r) \<in> set (calls_since s s')) \<and>
         (\<exists>src r. (Resource_set_palette src (Filter_palette t') 0 1024, r) \<in> set (calls_since t t')) \<and>
         length (Filter_palette s') = 256 \<and> length (Filter_palette t') = 256 \<and>
         (\<forall>j<256. Filter_palette s' ! j =
            (if int j < i_entries pl then palette_entry E (palette pl ! j) else Filter_palette s ! j)) \<and>
         (\<forall>j<256. Filter_palette t' ! j =
            (if int j < i_entries pl then palette_entry E (palette pl ! j) else Filter_palette t ! j)) \<and>
         snd (pushed_palettes (calls_since s s') ! 0) ! k = Filter_palette s ! k \<and>
         snd (pushed_palettes (calls_since t t') ! 0) ! k = Filter_palette t ! k \<and>
         pushed_palettes (calls_since s s') \<noteq> pushed_palettes (calls_since t t')"
proof -
  from Filter_palette_after [OF run_s yuvp] pal have
    s: "palette_loop E (palette pl) 0 (i_entries pl) (Filter_palette s) = Inr (Filter_palette s')"
       "pushed_palettes (calls_since s s') = [(0, take 256 (Filter_palette s'))]"
       "\<exists>src r. (Resource_set_palette src (Filter_palette s') 0 1024, r) \<in> set (calls_since s s')"
    by auto
  from yuvp same have "i_chroma (fmt_in (filter_obj t)) = VLC_CODEC_YUVP" by simp
  from Filter_palette_after [OF run_t this] pal same have
    t: "palette_loop E (palette pl) 0 (i_entries pl) (Filter_palette t) = Inr (Filter_palette t')"
       "pushed_palettes (calls_since t t') = [(0, take 256 (Filter_palette t'))]"
       "\<exists>src r. (Resource_set_palette src (Filter_palette t') 0 1024, r) \<in> set (calls_since t t')"
    by auto
  note ns = palette_loop_nth [OF s(1)] and nt = palette_loop_nth [OF t(1)]
  from ns len have ls: "length (Filter_palette s') = 256" by simp
  from nt len have lt: "length (Filter_palette t') = 256" by simp
  from s(2) ls have ps: "pushed_palettes (calls_since s s') = [(0, Filter_palette s')]" by simp
  from t(2) lt have pt: "pushed_palettes (calls_since t t') = [(0, Filter_palette t')]" by simp
  from ns len have es: "\<forall>j<256. Filter_palette s' ! j =
            (if int j < i_entries pl then palette_entry E (palette pl ! j) else Filter_palette s ! j)"
    by simp
  from nt len have et: "\<forall>j<256. Filter_palette t' ! j =
            (if int j < i_entries pl then palette_entry E (palette pl ! j) else Filter_palette t ! j)"
    by simp
  from es k have ks: "Filter_palette s' ! k = Filter_palette s ! k" by simp
  from et k have kt: "Filter_palette t' ! k = Filter_palette t ! k" by simp
  from ks kt differ have "Filter_palette s' \<noteq> Filter_palette t'" by auto
  with ps pt have ne: "pushed_palettes (calls_since s s') \<noteq> pushed_palettes (calls_since t t')"
    by simp
  from ps pt ls lt have lens:
    "map (\<lambda>up. length (snd up)) (pushed_palettes (calls_since s s')) = [256]"
    "map (\<lambda>up. length (snd up)) (pushed_palettes (calls_since t t')) = [256]"
    by simp_all
  from ps pt ks kt have tail:
    "snd (pushed_palettes (calls_since s s') ! 0) ! k = Filter_palette s ! k"
    "snd (pushed_palettes (calls_since t t') ! 0) ! k = Filter_palette t ! k"
    by simp_all
  show ?thesis
    apply (intro conjI)
                apply (rule ps)
               apply (rule pt)
              apply (rule lens(1))
             apply (rule lens(2))
            apply (rule s(3))
           apply (rule t(3))
          apply (rule ls)
         apply (rule lt)
        apply (rule es)
       apply (rule et)
      apply (rule tail(1))
     apply (rule tail(2))
    apply (rule ne)
    done
qed

theorem Filter_palette_push_depends_on_history_witness:
  "filter_obj world_yuvp_used = filter_obj world_yuvp_fresh \<and>
   Filter env0 (Some pic0) world_yuvp_fresh =
     Inr (Some out0, world_after env0 (Some pic0) world_yuvp_fresh) \<and>
   Filter env0 (Some pic0) world_yuvp_used =
     Inr (Some out0, world_after env0 (Some pic0) world_yuvp_used) \<and>
   map (\<lambda>up. length (snd up))
     (pushed_palettes (calls_since world_yuvp_fresh (world_after env0 (Some pic0) world_yuvp_fresh))) =
     [256] \<and>
   map fst
     (pushed_palettes (calls_since world_yuvp_fresh (world_after env0 (Some pic0) world_yuvp_fresh))) =
     [0] \<and>
   snd (pushed_palettes (calls_since world_yuvp_fresh (world_after env0 (Some pic0) world_yuvp_fresh)) ! 0) ! 3 =
     0 \<and>
   snd (pushed_palettes (calls_since world_yuvp_used (world_after env0 (Some pic0) world_yuvp_used)) ! 0) ! 3 =
     palette_entry env0 (235, 128, 128, 255) \<and>
   pushed_palettes (calls_since world_yuvp_fresh (world_after env0 (Some pic0) world_yuvp_fresh)) \<noteq>
   pushed_palettes (calls_since world_yuvp_used (world_after env0 (Some pic0) world_yuvp_used))"
proof -
  let ?pl = "\<lparr>i_entries = 2, palette = replicate 256 (16, 128, 128, 0)\<rparr>"
  have same: "filter_obj world_yuvp_used = filter_obj world_yuvp_fresh"
    by (simp add: world_yuvp_used_def)
  have yuvp: "i_chroma (fmt_in (filter_obj world_yuvp_fresh)) = VLC_CODEC_YUVP"
    and pal: "p_palette (fmt_in (filter_obj world_yuvp_fresh)) = Some ?pl"
    and len_fresh: "length (Filter_palette world_yuvp_fresh) = 256"
    and at_fresh: "Filter_palette world_yuvp_fresh ! 3 = 0"
    by (simp_all add: world_yuvp_fresh_def world_of_def fmt_yuvp_def)
  have used: "length (Filter_palette world_yuvp_used) = 256 \<and>
      Filter_palette world_yuvp_used ! 3 = palette_entry env0 (235, 128, 128, 255)"
    by (simp add: run_defs sample_defs world_yuvp_used_def world_yuvp_fresh_def palette_loop.simps)
  have entry: "palette_entry env0 (235, 128, 128, 255) \<noteq> 0"
    by (simp add: palette_entry_def DPM_RGBA32_def env0_def)
  have differ: "Filter_palette world_yuvp_fresh ! 3 \<noteq> Filter_palette world_yuvp_used ! 3"
    using used entry at_fresh by simp
  have k: "i_entries ?pl \<le> int 3" "(3::nat) < 256" by simp_all
  note inst = Filter_palette_push_depends_on_history
    [OF sample_run_fresh sample_run_used same yuvp pal len_fresh conjunct1 [OF used] k differ]
  from inst have
    up_fresh: "pushed_palettes (calls_since world_yuvp_fresh (world_after env0 (Some pic0) world_yuvp_fresh)) =
       [(0, Filter_palette (world_after env0 (Some pic0) world_yuvp_fresh))]" and
    count: "map (\<lambda>up. length (snd up))
       (pushed_palettes (calls_since world_yuvp_fresh (world_after env0 (Some pic0) world_yuvp_fresh))) =
       [256]" and
    tail_fresh: "snd (pushed_palettes (calls_since world_yuvp_fresh
        (world_after env0 (Some pic0) world_yuvp_fresh)) ! 0) ! 3 = Filter_palette world_yuvp_fresh ! 3" and
    tail_used: "snd (pushed_palettes (calls_since world_yuvp_used
        (world_after env0 (Some pic0) world_yuvp_used)) ! 0) ! 3 = Filter_palette world_yuvp_used ! 3" and
    pushed: "pushed_palettes (calls_since world_yuvp_fresh (world_after env0 (Some pic0) world_yuvp_fresh)) \<noteq>
       pushed_palettes (calls_since world_yuvp_used (world_after env0 (Some pic0) world_yuvp_used))"
    by blast+
  from up_fresh have offset: "map fst
     (pushed_palettes (calls_since world_yuvp_fresh (world_after env0 (Some pic0) world_yuvp_fresh))) = [0]"
    by simp
  from tail_fresh at_fresh have kept_fresh:
    "snd (pushed_palettes (calls_since world_yuvp_fresh
        (world_after env0 (Some pic0) world_yuvp_fresh)) ! 0) ! 3 = 0"
    by simp
  from tail_used used have kept_used:
    "snd (pushed_palettes (calls_since world_yuvp_used
        (world_after env0 (Some pic0) world_yuvp_used)) ! 0) ! 3 = palette_entry env0 (235, 128, 128, 255)"
    by simp
  show ?thesis
    apply (intro conjI)
           apply (rule same)
          apply (rule sample_run_fresh)
         apply (rule sample_run_used)
        apply (rule count)
       apply (rule offset)
      apply (rule kept_fresh)
     apply (rule kept_used)
    apply (rule pushed)
    done
qed

subsection \<open>The filter object across calls\<close>

text \<open>
  C10. \<open>Filter\<close> writes the adjusted output format into the filter object itself.
  Whatever a call returns, the filter object afterwards is the one before with its output
  format replaced by the adjusted one (left alone when the call stops at the guards);
  input format and callback are untouched. The next call starts from that stored format:
  after two calls the output format has been adjusted twice.
\<close>

theorem Filter_adjusts_fmt_out_in_place:
  assumes "Filter E pic_opt s = Inr (out, s')" and "Filter E' pic_opt' s' = Inr (out', s'')"
  shows "filter_obj s' = (filter_obj s)\<lparr>fmt_out :=
           (if passes_guards pic_opt s
            then video_format_ScaleCropAr E (fmt_out (filter_obj s)) (fmt_in (filter_obj s))
            else fmt_out (filter_obj s))\<rparr> \<and>
         filter_obj s'' = (filter_obj s)\<lparr>fmt_out :=
           (if passes_guards pic_opt' s'
            then video_format_ScaleCropAr E' (fmt_out (filter_obj s')) (fmt_in (filter_obj s))
            else fmt_out (filter_obj s'))\<rparr>"
  using Filter_filter_obj [OF assms(1)] Filter_filter_obj [OF assms(2)]
  by simp

theorem Filter_adjusts_fmt_out_in_place_witness:
  "fmt_out (filter_obj world0) = fmt_rgba 8 4 \<and>
   filter_obj (world_after env_half (Some pic0) world0) =
     (filter_obj world0)\<lparr>fmt_out := fmt_rgba 4 4\<rparr> \<and>
   filter_obj (world_after env_half (Some pic0) (world_after env_half (Some pic0) world0)) =
     (filter_obj world0)\<lparr>fmt_out := fmt_rgba 2 4\<rparr>"
proof -
  have first: "Filter env_half (Some pic0) world0 =
      Inr (Some out0, world_after env_half (Some pic0) world0)"
    by (simp add: run_defs sample_defs env_half_def)
  have second: "Filter env_half (Some pic0) (world_after env_half (Some pic0) world0) =
      Inr (Some (out0\<lparr>i_pitch := 8\<rparr>),
           world_after env_half (Some pic0) (world_after env_half (Some pic0) world0))"
    by (simp add: run_defs sample_defs env_half_def)
  have guards: "passes_guards (Some pic0) world0"
    "passes_guards (Some pic0) (world_after env_half (Some pic0) world0)"
    by (simp_all add: run_defs sample_defs env_half_def passes_guards_def)
  have start: "fmt_out (filter_obj world0) = fmt_rgba 8 4"
    by (simp add: sample_defs)
  from Filter_adjusts_fmt_out_in_place [OF first second] guards
  have "filter_obj (world_after env_half (Some pic0) world0) =
          (filter_obj world0)\<lparr>fmt_out :=
             video_format_ScaleCropAr env_half (fmt_out (filter_obj world0)) (fmt_in (filter_obj world0))\<rparr>"
    and "filter_obj (world_after env_half (Some pic0) (world_after env_half (Some pic0) world0)) =
          (filter_obj world0)\<lparr>fmt_out :=
             video_format_ScaleCropAr env_half
               (fmt_out (filter_obj (world_after env_half (Some pic0) world0)))
               (fmt_in (filter_obj world0))\<rparr>"
    by simp_all
  then show ?thesis
    by (simp add: start env_half_def env0_def fmt_rgba_def)
qed

end
